theory Spec2Isabelle
  imports Complex_Main "HOL-Library.Word" "HOL-Library.Monad_Syntax"
begin

section \<open>FigEDIT: shapes, undo/redo history and scene files\<close>

text \<open>
  A shallow embedding of \<^verbatim>\<open>src/FigEDIT.cpp\<close>: the shape classes, the
  \<^verbatim>\<open>UndoRedoManager\<close>, the editor's undo/redo handlers and the two scene-file
  functions \<^verbatim>\<open>guardarEscena\<close> and \<^verbatim>\<open>cargarEscena\<close>.

  Conventions.
  \<^item> A C++ \<^verbatim>\<open>float\<close> is a \<^typ>\<open>real\<close>: rounding of float arithmetic is not modelled.
    The values computed in the properties below are whole numbers, on which the float
    arithmetic of the source is exact.
  \<^item> A \<^verbatim>\<open>std::unique_ptr\<close> is an \<^typ>\<open>'a option\<close>; \<open>None\<close> is the null pointer.
    Calling a member through a null pointer is the error \<open>NullPointer\<close>.
  \<^item> The SFML object behind \<^verbatim>\<open>shapePtr\<close> keeps its own copy of the transform and
    the colour. That copy is library state and is not modelled: of \<^verbatim>\<open>shapePtr\<close>
    the model keeps whether it is null and which SFML class it points to.
  \<^item> Every function that can go wrong returns \<open>error + 'a\<close>, with \<open>Inl\<close> the error.
  \<^item> Drawing, the camera, the annotations and the widgets are not modelled.
\<close>

subsection \<open>Basic types\<close>

datatype ShapeType = Circle | Rectangle | Triangle | Ellipse | Polygon | Line | Cube | Text

text \<open>\<^verbatim>\<open>static_cast<int>(ShapeType)\<close>: the enumerators count from 0 in declaration order.\<close>

fun int_of_ShapeType :: "ShapeType \<Rightarrow> int" where
  "int_of_ShapeType Circle = 0"
| "int_of_ShapeType Rectangle = 1"
| "int_of_ShapeType Triangle = 2"
| "int_of_ShapeType Ellipse = 3"
| "int_of_ShapeType Polygon = 4"
| "int_of_ShapeType Line = 5"
| "int_of_ShapeType Cube = 6"
| "int_of_ShapeType Text = 7"

type_synonym Vector2f = "real \<times> real"

text \<open>\<^verbatim>\<open>sf::Color\<close>: four \<^verbatim>\<open>Uint8\<close> channels r, g, b, a.\<close>

type_synonym Color = "8 word \<times> 8 word \<times> 8 word \<times> 8 word"

text \<open>The predefined colours of SFML that \<^verbatim>\<open>main\<close> uses.\<close>

definition Green :: Color where
  "Green = (0, 255, 0, 255)"

definition Blue :: Color where
  "Blue = (0, 0, 255, 255)"

definition Red :: Color where
  "Red = (255, 0, 0, 255)"

definition Magenta :: Color where
  "Magenta = (255, 0, 255, 255)"

definition Cyan :: Color where
  "Cyan = (0, 255, 255, 255)"

definition Yellow :: Color where
  "Yellow = (255, 255, 0, 255)"

definition White :: Color where
  "White = (255, 255, 255, 255)"

text \<open>The SFML class of the object that \<^verbatim>\<open>shapePtr\<close> owns.\<close>

datatype sfShape = sfCircleShape | sfRectangleShape | sfConvexShape

text \<open>
  The data members that each derived class adds to \<^verbatim>\<open>ShapeBase\<close>, in the order of
  the classes in the source. The constructor of this datatype is the dynamic class of the
  object: it decides virtual calls and \<^verbatim>\<open>dynamic_cast\<close>.
  \<^item> \<open>CircleMembers radius rotationSpeed scaleSpeed scaleTime\<close>
  \<^item> \<open>CubeMembers size depth rotationAngle\<close> (the twelve edges \<^verbatim>\<open>lines\<close> are computed
    from these, the position and the colour with float sines and cosines and are only
    drawn: they are left out)
  \<^item> \<open>TextMembers content characterSize blinkTimer blinkInterval visible\<close>
    (\<^verbatim>\<open>textPtr\<close> is set by the only constructor and never reset; the font is an SFML
    resource and is left out)
  \<^item> \<open>RectangleMembers size rotationSpeed scaleSpeed scaleTime\<close>
  \<^item> \<open>TriangleMembers size rotationSpeed\<close>
  \<^item> \<open>EllipseMembers radiusX radiusY rotationSpeed\<close>
  \<^item> \<open>PolygonMembers points rotationSpeed\<close>
  \<^item> \<open>LineMembers thickness rotationSpeed\<close>
\<close>

datatype Members =
    CircleMembers real real real real
  | CubeMembers real real real
  | TextMembers string "32 word" real real bool
  | RectangleMembers Vector2f real real real
  | TriangleMembers real real
  | EllipseMembers real real real
  | PolygonMembers "Vector2f list" real
  | LineMembers real real

text \<open>An object of a class derived from \<^verbatim>\<open>ShapeBase\<close>: the base members and the derived ones.\<close>

record Shape =
  type :: ShapeType
  shapePtr :: "sfShape option"
  position :: Vector2f
  color :: Color
  rotation :: real
  scale :: Vector2f
  isSelected :: bool
  isAnimated :: bool
  members :: Members

datatype error = NullPointer | OutOfRange | NotModelled

text \<open>Sequencing of two steps, the second of which runs only when the first succeeded.\<close>

definition and_then :: "error + 'a \<Rightarrow> ('a \<Rightarrow> error + 'b) \<Rightarrow> error + 'b" where
  "and_then x f = (case x of Inl e \<Rightarrow> Inl e | Inr v \<Rightarrow> f v)"

subsection \<open>ShapeBase\<close>

text \<open>
  The constructor of \<^verbatim>\<open>ShapeBase\<close>: rotation 0, scale (1, 1), neither selected nor
  animated, and \<^verbatim>\<open>shapePtr\<close> default-initialised to null.
\<close>

definition ShapeBase :: "ShapeType \<Rightarrow> Vector2f \<Rightarrow> Color \<Rightarrow> Members \<Rightarrow> Shape" where
  "ShapeBase ty pos col ms =
     \<lparr>type = ty, shapePtr = None, position = pos, color = col, rotation = 0,
      scale = (1, 1), isSelected = False, isAnimated = False, members = ms\<rparr>"

text \<open>
  The four setters store the value and forward it through \<^verbatim>\<open>shapePtr\<close>. They are
  not virtual and no derived class redefines them.
\<close>

definition setPosition :: "Vector2f \<Rightarrow> Shape \<Rightarrow> error + Shape" where
  "setPosition pos s =
     (case shapePtr s of None \<Rightarrow> Inl NullPointer | Some _ \<Rightarrow> Inr (s\<lparr>position := pos\<rparr>))"

definition setRotation :: "real \<Rightarrow> Shape \<Rightarrow> error + Shape" where
  "setRotation rot s =
     (case shapePtr s of None \<Rightarrow> Inl NullPointer | Some _ \<Rightarrow> Inr (s\<lparr>rotation := rot\<rparr>))"

definition setScale :: "Vector2f \<Rightarrow> Shape \<Rightarrow> error + Shape" where
  "setScale scl s =
     (case shapePtr s of None \<Rightarrow> Inl NullPointer | Some _ \<Rightarrow> Inr (s\<lparr>scale := scl\<rparr>))"

definition setColor :: "Color \<Rightarrow> Shape \<Rightarrow> error + Shape" where
  "setColor col s =
     (case shapePtr s of None \<Rightarrow> Inl NullPointer | Some _ \<Rightarrow> Inr (s\<lparr>color := col\<rparr>))"

definition getPosition :: "Shape \<Rightarrow> Vector2f" where
  "getPosition s = position s"

definition getRotation :: "Shape \<Rightarrow> real" where
  "getRotation s = rotation s"

definition getScale :: "Shape \<Rightarrow> Vector2f" where
  "getScale s = scale s"

definition getColor :: "Shape \<Rightarrow> Color" where
  "getColor s = color s"

definition getType :: "Shape \<Rightarrow> ShapeType" where
  "getType s = type s"

text \<open>\<^verbatim>\<open>select\<close> and \<^verbatim>\<open>deselect\<close> set the flag, then restyle the outline through \<^verbatim>\<open>shapePtr\<close>.\<close>

definition select :: "Shape \<Rightarrow> error + Shape" where
  "select s =
     (case shapePtr s of None \<Rightarrow> Inl NullPointer | Some _ \<Rightarrow> Inr (s\<lparr>isSelected := True\<rparr>))"

definition deselect :: "Shape \<Rightarrow> error + Shape" where
  "deselect s =
     (case shapePtr s of None \<Rightarrow> Inl NullPointer | Some _ \<Rightarrow> Inr (s\<lparr>isSelected := False\<rparr>))"

definition selected :: "Shape \<Rightarrow> bool" where
  "selected s = isSelected s"

definition enableAnimation :: "bool \<Rightarrow> Shape \<Rightarrow> Shape" where
  "enableAnimation enable s = s\<lparr>isAnimated := enable\<rparr>"

definition animated :: "Shape \<Rightarrow> bool" where
  "animated s = isAnimated s"

subsection \<open>The derived classes: constructors\<close>

text \<open>
  Each constructor below takes the arguments of the C++ one (default arguments are given
  by the caller). All but the cube and the text constructor assign \<^verbatim>\<open>shapePtr\<close>.
\<close>

definition CircleShapeClass :: "Vector2f \<Rightarrow> Color \<Rightarrow> real \<Rightarrow> Shape" where
  "CircleShapeClass pos col radius =
     (ShapeBase Circle pos col (CircleMembers radius 0 0 0))\<lparr>shapePtr := Some sfCircleShape\<rparr>"

text \<open>
  The cube's constructor passes \<^verbatim>\<open>ShapeType::Polygon\<close> to \<^verbatim>\<open>ShapeBase\<close>, starts
  the rotation angle at 0 and never assigns \<^verbatim>\<open>shapePtr\<close>: the cube is drawn from
  its own \<^verbatim>\<open>lines\<close>.
\<close>

definition CubeShapeClass :: "Vector2f \<Rightarrow> Color \<Rightarrow> real \<Rightarrow> real \<Rightarrow> Shape" where
  "CubeShapeClass pos col sz depth =
     ShapeBase Polygon pos col (CubeMembers sz depth 0)"

text \<open>
  The cube's copy constructor. It is a member of the cube class: on an object of another
  class, which the source's types exclude, the model returns the argument.
\<close>

definition CubeShapeClass_copy :: "Shape \<Rightarrow> Shape" where
  "CubeShapeClass_copy other =
     (case members other of
        CubeMembers sz depth rotationAngle \<Rightarrow>
          ShapeBase (type other) (position other) (color other)
            (CubeMembers sz depth rotationAngle)
      | _ \<Rightarrow> other)"

text \<open>
  The text constructor builds \<^verbatim>\<open>textPtr\<close> and leaves \<^verbatim>\<open>shapePtr\<close> null. The
  character size starts at 24, the blink interval at 0.5 seconds.
\<close>

definition TextShapeClass :: "Vector2f \<Rightarrow> Color \<Rightarrow> string \<Rightarrow> Shape" where
  "TextShapeClass pos col content =
     ShapeBase Text pos col (TextMembers content 24 0 (1 / 2) True)"

definition RectangleShapeClass :: "Vector2f \<Rightarrow> Color \<Rightarrow> Vector2f \<Rightarrow> Shape" where
  "RectangleShapeClass pos col sz =
     (ShapeBase Rectangle pos col (RectangleMembers sz 0 0 0))\<lparr>shapePtr := Some sfRectangleShape\<rparr>"

definition TriangleShapeClass :: "Vector2f \<Rightarrow> Color \<Rightarrow> real \<Rightarrow> Shape" where
  "TriangleShapeClass pos col sz =
     (ShapeBase Triangle pos col (TriangleMembers sz 0))\<lparr>shapePtr := Some sfConvexShape\<rparr>"

definition EllipseShapeClass :: "Vector2f \<Rightarrow> Color \<Rightarrow> real \<Rightarrow> real \<Rightarrow> Shape" where
  "EllipseShapeClass pos col radiusX radiusY =
     (ShapeBase Ellipse pos col (EllipseMembers radiusX radiusY 0))\<lparr>shapePtr := Some sfCircleShape\<rparr>"

definition PolygonShapeClass :: "Vector2f \<Rightarrow> Color \<Rightarrow> Vector2f list \<Rightarrow> Shape" where
  "PolygonShapeClass pos col points =
     (ShapeBase Polygon pos col (PolygonMembers points 0))\<lparr>shapePtr := Some sfConvexShape\<rparr>"

text \<open>
  The line's position is the midpoint of its two end points. The end points themselves
  only size and turn the SFML rectangle: the class stores neither.
\<close>

definition LineShapeClass :: "Vector2f \<Rightarrow> Vector2f \<Rightarrow> Color \<Rightarrow> real \<Rightarrow> Shape" where
  "LineShapeClass startPoint endPoint col thickness =
     (ShapeBase Line ((fst startPoint + fst endPoint) / 2, (snd startPoint + snd endPoint) / 2) col
        (LineMembers thickness 0))\<lparr>shapePtr := Some sfRectangleShape\<rparr>"

subsection \<open>The derived classes: setters\<close>

text \<open>
  \<^verbatim>\<open>setRotationSpeed\<close> is a member of the circle, rectangle, triangle, ellipse, polygon
  and line classes, \<^verbatim>\<open>setScaleSpeed\<close> of the circle and the rectangle,
  \<^verbatim>\<open>setCharacterSize\<close> of the text. The source reaches them through a pointer to the
  class that has them; on the other classes the model returns the argument.
\<close>

definition setRotationSpeed :: "real \<Rightarrow> Shape \<Rightarrow> Shape" where
  "setRotationSpeed speed s =
     (case members s of
        CircleMembers radius _ scaleSpeed scaleTime \<Rightarrow>
          s\<lparr>members := CircleMembers radius speed scaleSpeed scaleTime\<rparr>
      | RectangleMembers sz _ scaleSpeed scaleTime \<Rightarrow>
          s\<lparr>members := RectangleMembers sz speed scaleSpeed scaleTime\<rparr>
      | TriangleMembers sz _ \<Rightarrow> s\<lparr>members := TriangleMembers sz speed\<rparr>
      | EllipseMembers radiusX radiusY _ \<Rightarrow> s\<lparr>members := EllipseMembers radiusX radiusY speed\<rparr>
      | PolygonMembers points _ \<Rightarrow> s\<lparr>members := PolygonMembers points speed\<rparr>
      | LineMembers thickness _ \<Rightarrow> s\<lparr>members := LineMembers thickness speed\<rparr>
      | _ \<Rightarrow> s)"

definition setScaleSpeed :: "real \<Rightarrow> Shape \<Rightarrow> Shape" where
  "setScaleSpeed speed s =
     (case members s of
        CircleMembers radius rotationSpeed _ scaleTime \<Rightarrow>
          s\<lparr>members := CircleMembers radius rotationSpeed speed scaleTime\<rparr>
      | RectangleMembers sz rotationSpeed _ scaleTime \<Rightarrow>
          s\<lparr>members := RectangleMembers sz rotationSpeed speed scaleTime\<rparr>
      | _ \<Rightarrow> s)"

definition setCharacterSize :: "32 word \<Rightarrow> Shape \<Rightarrow> Shape" where
  "setCharacterSize sz s =
     (case members s of
        TextMembers content _ blinkTimer blinkInterval visible \<Rightarrow>
          s\<lparr>members := TextMembers content sz blinkTimer blinkInterval visible\<rparr>
      | _ \<Rightarrow> s)"

text \<open>\<^verbatim>\<open>CubeShapeClass::rotate\<close>: the one place that wraps an angle on both sides.\<close>

definition rotate :: "real \<Rightarrow> Shape \<Rightarrow> Shape" where
  "rotate angle s =
     (case members s of
        CubeMembers sz depth rotationAngle \<Rightarrow>
          (let a1 = rotationAngle + angle;
               a2 = (if a1 \<ge> 360 then a1 - 360 else a1);
               a3 = (if a2 < 0 then a2 + 360 else a2)
           in s\<lparr>members := CubeMembers sz depth a3\<rparr>)
      | _ \<Rightarrow> s)"

subsection \<open>updateShape\<close>

text \<open>
  The block that the source labels \<^verbatim>\<open>Rotacion continua\<close>, which six classes repeat
  word for word: add speed times elapsed time, subtract 360 once when the sum is greater
  than 360, and hand the result to the SFML object.
\<close>

definition continuousRotation :: "real \<Rightarrow> real \<Rightarrow> Shape \<Rightarrow> error + Shape" where
  "continuousRotation rotationSpeed deltaTime s =
     (let rot = rotation s + rotationSpeed * deltaTime;
          rot' = (if rot > 360 then rot - 360 else rot)
      in case shapePtr s of
           None \<Rightarrow> Inl NullPointer
         | Some _ \<Rightarrow> Inr (s\<lparr>rotation := rot'\<rparr>))"

text \<open>
  \<^verbatim>\<open>updateShape\<close> is virtual: the dynamic class selects the body. The pulsing scale of
  the circle and the rectangle goes to the SFML object only; what stays in the class is
  the advance of \<^verbatim>\<open>scaleTime\<close>. The cube's body is empty. The text blinks.
\<close>

definition updateShape :: "real \<Rightarrow> Shape \<Rightarrow> error + Shape" where
  "updateShape deltaTime s =
     (case members s of
        CircleMembers radius rotationSpeed scaleSpeed scaleTime \<Rightarrow>
          (if isAnimated s then
             and_then (continuousRotation rotationSpeed deltaTime s)
               (\<lambda>s'. Inr (s'\<lparr>members :=
                     CircleMembers radius rotationSpeed scaleSpeed (scaleTime + deltaTime)\<rparr>))
           else Inr s)
      | CubeMembers _ _ _ \<Rightarrow> Inr s
      | TextMembers content characterSize blinkTimer blinkInterval visible \<Rightarrow>
          (if isAnimated s then
             (let blinkTimer' = blinkTimer + deltaTime
              in if blinkTimer' \<ge> blinkInterval
                 then Inr (s\<lparr>members :=
                        TextMembers content characterSize 0 blinkInterval (\<not> visible)\<rparr>)
                 else Inr (s\<lparr>members :=
                        TextMembers content characterSize blinkTimer' blinkInterval visible\<rparr>))
           else Inr s)
      | RectangleMembers sz rotationSpeed scaleSpeed scaleTime \<Rightarrow>
          (if isAnimated s then
             and_then (continuousRotation rotationSpeed deltaTime s)
               (\<lambda>s'. Inr (s'\<lparr>members :=
                     RectangleMembers sz rotationSpeed scaleSpeed (scaleTime + deltaTime)\<rparr>))
           else Inr s)
      | TriangleMembers _ rotationSpeed \<Rightarrow>
          (if isAnimated s then continuousRotation rotationSpeed deltaTime s else Inr s)
      | EllipseMembers _ _ rotationSpeed \<Rightarrow>
          (if isAnimated s then continuousRotation rotationSpeed deltaTime s else Inr s)
      | PolygonMembers _ rotationSpeed \<Rightarrow>
          (if isAnimated s then continuousRotation rotationSpeed deltaTime s else Inr s)
      | LineMembers _ rotationSpeed \<Rightarrow>
          (if isAnimated s then continuousRotation rotationSpeed deltaTime s else Inr s))"

text \<open>A sequence of \<^verbatim>\<open>updateShape\<close> calls, one per elapsed time of the list.\<close>

fun updateShapes :: "real list \<Rightarrow> Shape \<Rightarrow> error + Shape" where
  "updateShapes [] s = Inr s"
| "updateShapes (deltaTime # rest) s = and_then (updateShape deltaTime s) (updateShapes rest)"

subsection \<open>clone\<close>

text \<open>
  \<^verbatim>\<open>clone\<close> is virtual. Every class but the cube builds the copy with its ordinary
  constructor, from the position, the colour and one or two of its own members; the line
  passes its position as the start point and the position moved by (100, 0) as the end
  point. The cube uses its copy constructor.
\<close>

definition clone :: "Shape \<Rightarrow> Shape" where
  "clone s =
     (case members s of
        CircleMembers radius _ _ _ \<Rightarrow> CircleShapeClass (position s) (color s) radius
      | CubeMembers _ _ _ \<Rightarrow> CubeShapeClass_copy s
      | TextMembers content _ _ _ _ \<Rightarrow> TextShapeClass (position s) (color s) content
      | RectangleMembers sz _ _ _ \<Rightarrow> RectangleShapeClass (position s) (color s) sz
      | TriangleMembers sz _ \<Rightarrow> TriangleShapeClass (position s) (color s) sz
      | EllipseMembers radiusX radiusY _ \<Rightarrow>
          EllipseShapeClass (position s) (color s) radiusX radiusY
      | PolygonMembers points _ \<Rightarrow> PolygonShapeClass (position s) (color s) points
      | LineMembers thickness _ \<Rightarrow>
          LineShapeClass (position s) (fst (position s) + 100, snd (position s) + 0) (color s)
            thickness)"

subsection \<open>Action and UndoRedoManager\<close>

datatype ActionType = Add | Remove | Modify

text \<open>
  The struct \<^verbatim>\<open>Action\<close> with its members \<^verbatim>\<open>type\<close>, \<^verbatim>\<open>shape\<close> and \<^verbatim>\<open>index\<close>
  (renamed, since \<open>type\<close> is a member of the shape record). The index is a C++
  \<^verbatim>\<open>int\<close>; no arithmetic is done on it.
\<close>

record Action =
  actionType :: ActionType
  actionShape :: "Shape option"
  actionIndex :: int

text \<open>\<^verbatim>\<open>Action{}\<close>: the first enumerator, a null pointer and index 0.\<close>

definition emptyAction :: Action where
  "emptyAction = \<lparr>actionType = Add, actionShape = None, actionIndex = 0\<rparr>"

text \<open>
  What is left in an \<^verbatim>\<open>Action\<close> after \<^verbatim>\<open>std::move\<close> has taken it: the defaulted
  move constructor copies the enumerator and the integer and moves the
  \<^verbatim>\<open>unique_ptr\<close>, which leaves the source pointer null.
\<close>

definition movedFrom :: "Action \<Rightarrow> Action" where
  "movedFrom action = action\<lparr>actionShape := None\<rparr>"

text \<open>The two stacks; the head of a list is the top.\<close>

record UndoRedoManager =
  undoStack :: "Action list"
  redoStack :: "Action list"

definition newUndoRedoManager :: UndoRedoManager where
  "newUndoRedoManager = \<lparr>undoStack = [], redoStack = []\<rparr>"

text \<open>The loop \<^verbatim>\<open>while (!redoStack.empty()) redoStack.pop();\<close>\<close>

fun popAll :: "Action list \<Rightarrow> Action list" where
  "popAll [] = []"
| "popAll (action # rest) = popAll rest"

definition addAction :: "Action \<Rightarrow> UndoRedoManager \<Rightarrow> UndoRedoManager" where
  "addAction action m = \<lparr>undoStack = action # undoStack m, redoStack = popAll (redoStack m)\<rparr>"

definition canUndo :: "UndoRedoManager \<Rightarrow> bool" where
  "canUndo m = (undoStack m \<noteq> [])"

definition canRedo :: "UndoRedoManager \<Rightarrow> bool" where
  "canRedo m = (redoStack m \<noteq> [])"

text \<open>
  \<^verbatim>\<open>undo\<close> moves the top of the undo stack into a local, pops, moves the local onto
  the redo stack, and then returns the local: the caller receives the moved-from
  object. \<^verbatim>\<open>redo\<close> is the mirror image.
\<close>

definition undo :: "UndoRedoManager \<Rightarrow> Action \<times> UndoRedoManager" where
  "undo m =
     (if canUndo m then
        (case undoStack m of
           action # rest \<Rightarrow>
             (movedFrom action, \<lparr>undoStack = rest, redoStack = action # redoStack m\<rparr>)
         | [] \<Rightarrow> (emptyAction, m))
      else (emptyAction, m))"

definition redo :: "UndoRedoManager \<Rightarrow> Action \<times> UndoRedoManager" where
  "redo m =
     (if canRedo m then
        (case redoStack m of
           action # rest \<Rightarrow>
             (movedFrom action, \<lparr>undoStack = action # undoStack m, redoStack = rest\<rparr>)
         | [] \<Rightarrow> (emptyAction, m))
      else (emptyAction, m))"

subsection \<open>The editor: the shape collection and its handlers in main\<close>

text \<open>
  The locals of \<^verbatim>\<open>main\<close> that the handlers below read and write: the vector
  \<^verbatim>\<open>formas\<close> of owning pointers, the history, and the selected index.
\<close>

record Editor =
  formas :: "Shape option list"
  undoRedoManager :: UndoRedoManager
  formaSeleccionada :: int

definition newEditor :: Editor where
  "newEditor = \<lparr>formas = [], undoRedoManager = newUndoRedoManager, formaSeleccionada = - 1\<rparr>"

text \<open>
  The three vector operations that the handlers use with an index taken from an action.
  The source does not check the index; an index outside the vector is \<open>OutOfRange\<close>.
\<close>

definition erase :: "'a list \<Rightarrow> int \<Rightarrow> error + 'a list" where
  "erase v i =
     (if 0 \<le> i \<and> i < int (length v) then Inr (take (nat i) v @ drop (Suc (nat i)) v)
      else Inl OutOfRange)"

definition insert_at :: "'a list \<Rightarrow> int \<Rightarrow> 'a \<Rightarrow> error + 'a list" where
  "insert_at v i x =
     (if 0 \<le> i \<and> i \<le> int (length v) then Inr (take (nat i) v @ x # drop (nat i) v)
      else Inl OutOfRange)"

definition assign_at :: "'a list \<Rightarrow> int \<Rightarrow> 'a \<Rightarrow> error + 'a list" where
  "assign_at v i x =
     (if 0 \<le> i \<and> i < int (length v) then Inr (v[nat i := x]) else Inl OutOfRange)"

text \<open>
  The body shared by the seven \<^verbatim>\<open>Anadir\<close> buttons: append the new shape, record an
  \<open>Add\<close> action holding a clone of it and the index of the last element.
\<close>

definition anadirForma :: "Shape \<Rightarrow> Editor \<Rightarrow> Editor" where
  "anadirForma nueva ed =
     (let formas' = formas ed @ [Some nueva];
          action = \<lparr>actionType = Add, actionShape = Some (clone nueva),
                    actionIndex = int (length formas') - 1\<rparr>
      in ed\<lparr>formas := formas', undoRedoManager := addAction action (undoRedoManager ed)\<rparr>)"

text \<open>
  The shapes that the seven buttons construct (default arguments written out). No button
  constructs a text; \<open>textoNuevo\<close> is the text constructor with its default content.
\<close>

definition circuloNuevo :: Shape where
  "circuloNuevo = CircleShapeClass (400, 300) Green 50"

definition rectanguloNuevo :: Shape where
  "rectanguloNuevo = RectangleShapeClass (600, 300) Blue (100, 60)"

definition trianguloNuevo :: Shape where
  "trianguloNuevo = TriangleShapeClass (800, 300) Red 100"

definition elipseNueva :: Shape where
  "elipseNueva = EllipseShapeClass (500, 400) Magenta 80 40"

definition poligonoNuevo :: Shape where
  "poligonoNuevo =
     PolygonShapeClass (700, 400) Cyan [(0, 60), (50, 0), (100, 60), (75, 120), (25, 120)]"

definition lineaNueva :: Shape where
  "lineaNueva = LineShapeClass (800, 500) (900, 600) Yellow 4"

definition cuboNuevo :: Shape where
  "cuboNuevo = CubeShapeClass (500, 400) Yellow 100 50"

definition textoNuevo :: Shape where
  "textoNuevo = TextShapeClass (100, 100) White ''Texto''"

definition anadirCirculo :: "Editor \<Rightarrow> Editor" where
  "anadirCirculo ed = anadirForma circuloNuevo ed"

text \<open>
  The button \<^verbatim>\<open>Eliminar Forma\<close>, shown when the collection is not empty and the
  selected index is inside it: record a \<open>Remove\<close> action with a clone, then erase.
\<close>

definition eliminarForma :: "Editor \<Rightarrow> error + Editor" where
  "eliminarForma ed =
     (if formas ed \<noteq> [] \<and> 0 \<le> formaSeleccionada ed
         \<and> formaSeleccionada ed < int (length (formas ed)) then
        (case formas ed ! nat (formaSeleccionada ed) of
           None \<Rightarrow> Inl NullPointer
         | Some s \<Rightarrow>
             (let action = \<lparr>actionType = Remove, actionShape = Some (clone s),
                            actionIndex = formaSeleccionada ed\<rparr>
              in and_then (erase (formas ed) (formaSeleccionada ed))
                   (\<lambda>formas'. Inr (ed\<lparr>formas := formas',
                        undoRedoManager := addAction action (undoRedoManager ed),
                        formaSeleccionada := - 1\<rparr>))))
      else Inr ed)"

text \<open>
  The handlers of \<^verbatim>\<open>Deshacer\<close> and \<^verbatim>\<open>Rehacer\<close> (the buttons and the shortcuts
  Ctrl+Z and Ctrl+Y have the same body).
\<close>

definition deshacer :: "Editor \<Rightarrow> error + Editor" where
  "deshacer ed =
     (if canUndo (undoRedoManager ed) then
        (let (action, m) = undo (undoRedoManager ed)
         in and_then
              (case actionType action of
                 Add \<Rightarrow> erase (formas ed) (actionIndex action)
               | Remove \<Rightarrow> insert_at (formas ed) (actionIndex action) (actionShape action)
               | Modify \<Rightarrow> assign_at (formas ed) (actionIndex action) (actionShape action))
              (\<lambda>formas'. Inr (ed\<lparr>formas := formas', undoRedoManager := m\<rparr>)))
      else Inr ed)"

definition rehacer :: "Editor \<Rightarrow> error + Editor" where
  "rehacer ed =
     (if canRedo (undoRedoManager ed) then
        (let (action, m) = redo (undoRedoManager ed)
         in and_then
              (case actionType action of
                 Add \<Rightarrow> insert_at (formas ed) (actionIndex action) (actionShape action)
               | Remove \<Rightarrow> erase (formas ed) (actionIndex action)
               | Modify \<Rightarrow> assign_at (formas ed) (actionIndex action) (actionShape action))
              (\<lambda>formas'. Inr (ed\<lparr>formas := formas', undoRedoManager := m\<rparr>)))
      else Inr ed)"

subsection \<open>Scene files\<close>

text \<open>
  A scene file is text: numbers and one word per text shape, separated by blanks and line
  ends. The model keeps the sequence of fields and leaves the characters out:
  \<^item> \<open>TNum x\<close> is a field written by \<^verbatim>\<open>operator<<\<close> from a number; \<open>x\<close> is the number
    that the written digits denote;
  \<^item> \<open>TWord w\<close> is the content of a text shape as written.

  \<^verbatim>\<open>operator<<\<close> writes an integer exactly and a \<^verbatim>\<open>float\<close> in the stream's default
  format, which keeps six significant digits. The function \<open>fmt\<close> that the writer takes
  is that format: \<open>fmt x\<close> is the number denoted by the digits written for the float
  \<open>x\<close>. Nothing is assumed about it.

  Where an extraction does not find a field of the kind it asks for (no field left, a
  word where a number is expected, an integer asked of a number that is not whole or
  does not fit the integer type, and the cases named at \<open>read_word\<close>), the source does
  not stop: it never tests the stream, and it goes on with a stream in its failed state
  and with variables that no extraction assigned, or with a text cut elsewhere than the
  writer cut it. What it does then depends on characters and on values that a sequence
  of fields does not hold. The embedding does not follow the source there: the result
  \<open>Inl NotModelled\<close> stands for no behaviour of the program, and no property below
  rests on it.
\<close>

datatype token = TNum real | TWord string

datatype archivo = Missing | Unopenable | File "token list"

text \<open>
  The files by name. \<^verbatim>\<open>std::ifstream\<close> opens a \<open>File\<close> only; \<^verbatim>\<open>std::ofstream\<close>
  opens (and empties or creates) anything but an \<open>Unopenable\<close> path.
\<close>

type_synonym FileSystem = "string \<Rightarrow> archivo"

definition read_float :: "token list \<Rightarrow> (real \<times> token list) option" where
  "read_float ts = (case ts of TNum x # rest \<Rightarrow> Some (x, rest) | _ \<Rightarrow> None)"

text \<open>Extraction of an \<^verbatim>\<open>int\<close>: a whole number of 32 bits, signed.\<close>

definition read_int :: "token list \<Rightarrow> (int \<times> token list) option" where
  "read_int ts =
     (case ts of
        TNum x # rest \<Rightarrow>
          (if x = of_int \<lfloor>x\<rfloor> \<and> - (2 ^ 31) \<le> \<lfloor>x\<rfloor> \<and> \<lfloor>x\<rfloor> < 2 ^ 31 then Some (\<lfloor>x\<rfloor>, rest)
           else None)
      | _ \<Rightarrow> None)"

text \<open>Extraction of a \<^verbatim>\<open>size_t\<close> (64 bits) and of an \<^verbatim>\<open>unsigned int\<close> (32 bits).\<close>

definition read_size_t :: "token list \<Rightarrow> (nat \<times> token list) option" where
  "read_size_t ts =
     (case ts of
        TNum x # rest \<Rightarrow>
          (if x = of_int \<lfloor>x\<rfloor> \<and> 0 \<le> \<lfloor>x\<rfloor> \<and> \<lfloor>x\<rfloor> < 2 ^ 64 then Some (nat \<lfloor>x\<rfloor>, rest)
           else None)
      | _ \<Rightarrow> None)"

definition read_unsigned :: "token list \<Rightarrow> (32 word \<times> token list) option" where
  "read_unsigned ts =
     (case ts of
        TNum x # rest \<Rightarrow>
          (if x = of_int \<lfloor>x\<rfloor> \<and> 0 \<le> \<lfloor>x\<rfloor> \<and> \<lfloor>x\<rfloor> < 2 ^ 32 then Some (word_of_int \<lfloor>x\<rfloor>, rest)
           else None)
      | _ \<Rightarrow> None)"

text \<open>Extraction of a \<^verbatim>\<open>bool\<close>: the field 0 or 1.\<close>

definition read_bool :: "token list \<Rightarrow> (bool \<times> token list) option" where
  "read_bool ts =
     (case ts of
        TNum x # rest \<Rightarrow>
          (if x = 0 then Some (False, rest) else if x = 1 then Some (True, rest) else None)
      | _ \<Rightarrow> None)"

definition isspace :: "char \<Rightarrow> bool" where
  "isspace c = (c \<in> set [CHR '' '', CHR 0x09, CHR 0x0A, CHR 0x0B, CHR 0x0C, CHR 0x0D])"

text \<open>
  \<^verbatim>\<open>archivo >> std::ws; std::getline(archivo, contenido, ' ')\<close>: skip blanks, then take
  the characters up to the next space. On a content that is one word without blanks this
  returns the word. A content that is empty or has a blank in it, and a field that was
  written from a number, make the reader cut the text elsewhere than the writer did:
  these are not followed.
\<close>

definition read_word :: "token list \<Rightarrow> (string \<times> token list) option" where
  "read_word ts =
     (case ts of
        TWord w # rest \<Rightarrow> (if w \<noteq> [] \<and> \<not> list_ex isspace w then Some (w, rest) else None)
      | _ \<Rightarrow> None)"

subsubsection \<open>guardarEscena\<close>

text \<open>The eleven fields written for every shape.\<close>

definition escribirComunes :: "(real \<Rightarrow> real) \<Rightarrow> Shape \<Rightarrow> token list" where
  "escribirComunes fmt forma =
     (case getColor forma of (r, g, b, a) \<Rightarrow>
        [TNum (of_int (int_of_ShapeType (getType forma))),
         TNum (fmt (fst (getPosition forma))), TNum (fmt (snd (getPosition forma))),
         TNum (fmt (getRotation forma)),
         TNum (fmt (fst (getScale forma))), TNum (fmt (snd (getScale forma))),
         TNum (of_int (uint r)), TNum (of_int (uint g)),
         TNum (of_int (uint b)), TNum (of_int (uint a)),
         TNum (if animated forma then 1 else 0)])"

text \<open>
  The switch on \<^verbatim>\<open>getType()\<close>. Each case casts to the class named after the tag with
  \<^verbatim>\<open>dynamic_cast\<close> and writes only if the cast succeeds. There is no case for
  \<open>Cube\<close>.
\<close>

definition escribirEspecificas :: "(real \<Rightarrow> real) \<Rightarrow> Shape \<Rightarrow> token list" where
  "escribirEspecificas fmt forma =
     (case getType forma of
        Circle \<Rightarrow>
          (case members forma of
             CircleMembers radius rotationSpeed scaleSpeed _ \<Rightarrow>
               [TNum (fmt radius), TNum (fmt rotationSpeed), TNum (fmt scaleSpeed)]
           | _ \<Rightarrow> [])
      | Rectangle \<Rightarrow>
          (case members forma of
             RectangleMembers sz rotationSpeed scaleSpeed _ \<Rightarrow>
               [TNum (fmt (fst sz)), TNum (fmt (snd sz)),
                TNum (fmt rotationSpeed), TNum (fmt scaleSpeed)]
           | _ \<Rightarrow> [])
      | Triangle \<Rightarrow>
          (case members forma of
             TriangleMembers sz rotationSpeed \<Rightarrow> [TNum (fmt sz), TNum (fmt rotationSpeed)]
           | _ \<Rightarrow> [])
      | Ellipse \<Rightarrow>
          (case members forma of
             EllipseMembers radiusX radiusY rotationSpeed \<Rightarrow>
               [TNum (fmt radiusX), TNum (fmt radiusY), TNum (fmt rotationSpeed)]
           | _ \<Rightarrow> [])
      | Polygon \<Rightarrow>
          (case members forma of
             PolygonMembers puntos rotationSpeed \<Rightarrow>
               TNum (of_nat (length puntos))
                 # concat (map (\<lambda>punto. [TNum (fmt (fst punto)), TNum (fmt (snd punto))]) puntos)
                 @ [TNum (fmt rotationSpeed)]
           | _ \<Rightarrow> [])
      | Line \<Rightarrow>
          (case members forma of
             LineMembers thickness rotationSpeed \<Rightarrow>
               [TNum (fmt thickness), TNum (fmt rotationSpeed)]
           | _ \<Rightarrow> [])
      | Text \<Rightarrow>
          (case members forma of
             TextMembers content characterSize _ _ _ \<Rightarrow>
               [TWord content, TNum (of_nat (unat characterSize))]
           | _ \<Rightarrow> [])
      | Cube \<Rightarrow> [])"

text \<open>The loop over the collection; a null entry is dereferenced.\<close>

fun escribirFormas :: "(real \<Rightarrow> real) \<Rightarrow> Shape option list \<Rightarrow> error + token list" where
  "escribirFormas fmt [] = Inr []"
| "escribirFormas fmt (None # resto) = Inl NullPointer"
| "escribirFormas fmt (Some forma # resto) =
     and_then (escribirFormas fmt resto)
       (\<lambda>ts. Inr (escribirComunes fmt forma @ escribirEspecificas fmt forma @ ts))"

definition guardarEscena ::
  "(real \<Rightarrow> real) \<Rightarrow> FileSystem \<Rightarrow> string \<Rightarrow> Shape option list \<Rightarrow> error + FileSystem" where
  "guardarEscena fmt fs nombreArchivo escena =
     (if fs nombreArchivo = Unopenable then Inr fs
      else and_then (escribirFormas fmt escena)
             (\<lambda>ts. Inr (fs(nombreArchivo := File (TNum (of_nat (length escena)) # ts)))))"

subsubsection \<open>cargarEscena\<close>

text \<open>
  The first extraction of the loop body: type tag, position, rotation, scale, the four
  colour channels as \<^verbatim>\<open>int\<close> (narrowed to \<^verbatim>\<open>Uint8\<close> by \<^verbatim>\<open>sf::Color\<close>) and the
  animation flag.
\<close>

definition leerComunes ::
  "token list \<Rightarrow> ((int \<times> real \<times> real \<times> real \<times> real \<times> real \<times> Color \<times> bool) \<times> token list) option" where
  "leerComunes ts0 =
     do {
       (tipoInt, ts) \<leftarrow> read_int ts0;
       (posX, ts) \<leftarrow> read_float ts;
       (posY, ts) \<leftarrow> read_float ts;
       (rot, ts) \<leftarrow> read_float ts;
       (escX, ts) \<leftarrow> read_float ts;
       (escY, ts) \<leftarrow> read_float ts;
       (r, ts) \<leftarrow> read_int ts;
       (g, ts) \<leftarrow> read_int ts;
       (b, ts) \<leftarrow> read_int ts;
       (a, ts) \<leftarrow> read_int ts;
       (animado, ts) \<leftarrow> read_bool ts;
       Some ((tipoInt, posX, posY, rot, escX, escY,
              (word_of_int r, word_of_int g, word_of_int b, word_of_int a), animado), ts)
     }"

text \<open>
  The loop that reads the points of a polygon. (The vector of \<^verbatim>\<open>puntosCount\<close> points
  that the source allocates first is assumed to fit in memory.)
\<close>

fun leerPuntos :: "nat \<Rightarrow> token list \<Rightarrow> (Vector2f list \<times> token list) option" where
  "leerPuntos 0 ts = Some ([], ts)"
| "leerPuntos (Suc n) ts0 =
     do {
       (x, ts) \<leftarrow> read_float ts0;
       (y, ts) \<leftarrow> read_float ts;
       (puntos, ts) \<leftarrow> leerPuntos n ts;
       Some ((x, y) # puntos, ts)
     }"

text \<open>
  The switch on the type tag: it reads the fields of the class and constructs the shape.
  The tags 0 to 5 and 7 have a case; \<open>Cube\<close> (6) and every other integer fall to
  \<^verbatim>\<open>default\<close>, which leaves \<^verbatim>\<open>nuevaForma\<close> null. The line is rebuilt from the two
  points 50 to the left and 50 to the right of the position read; its constructor takes
  their midpoint. In the float arithmetic of the source that midpoint can differ from
  the position read in the last digits; the reals of this theory do not show that, and
  no property below is about a line read from a file.
\<close>

definition construirForma ::
  "int \<Rightarrow> real \<Rightarrow> real \<Rightarrow> Color \<Rightarrow> token list \<Rightarrow> (Shape option \<times> token list) option" where
  "construirForma tipoInt posX posY col ts0 =
     (if tipoInt = 0 then
        do {
          (radio, ts) \<leftarrow> read_float ts0;
          (rotSpeed, ts) \<leftarrow> read_float ts;
          (scaleSpeed, ts) \<leftarrow> read_float ts;
          Some (Some (setScaleSpeed scaleSpeed (setRotationSpeed rotSpeed
                        (CircleShapeClass (posX, posY) col radio))), ts)
        }
      else if tipoInt = 1 then
        do {
          (sizeX, ts) \<leftarrow> read_float ts0;
          (sizeY, ts) \<leftarrow> read_float ts;
          (rotSpeed, ts) \<leftarrow> read_float ts;
          (scaleSpeed, ts) \<leftarrow> read_float ts;
          Some (Some (setScaleSpeed scaleSpeed (setRotationSpeed rotSpeed
                        (RectangleShapeClass (posX, posY) col (sizeX, sizeY)))), ts)
        }
      else if tipoInt = 2 then
        do {
          (sz, ts) \<leftarrow> read_float ts0;
          (rotSpeed, ts) \<leftarrow> read_float ts;
          Some (Some (setRotationSpeed rotSpeed (TriangleShapeClass (posX, posY) col sz)), ts)
        }
      else if tipoInt = 3 then
        do {
          (rX, ts) \<leftarrow> read_float ts0;
          (rY, ts) \<leftarrow> read_float ts;
          (rotSpeed, ts) \<leftarrow> read_float ts;
          Some (Some (setRotationSpeed rotSpeed (EllipseShapeClass (posX, posY) col rX rY)), ts)
        }
      else if tipoInt = 4 then
        do {
          (puntosCount, ts) \<leftarrow> read_size_t ts0;
          (puntos, ts) \<leftarrow> leerPuntos puntosCount ts;
          (rotSpeed, ts) \<leftarrow> read_float ts;
          Some (Some (setRotationSpeed rotSpeed (PolygonShapeClass (posX, posY) col puntos)), ts)
        }
      else if tipoInt = 5 then
        do {
          (grosor, ts) \<leftarrow> read_float ts0;
          (rotSpeed, ts) \<leftarrow> read_float ts;
          Some (Some (setRotationSpeed rotSpeed
                        (LineShapeClass (posX - 50, posY) (posX + 50, posY) col grosor)), ts)
        }
      else if tipoInt = 7 then
        do {
          (contenido, ts) \<leftarrow> read_word ts0;
          (tam, ts) \<leftarrow> read_unsigned ts;
          Some (Some (setCharacterSize tam (TextShapeClass (posX, posY) col contenido)), ts)
        }
      else Some (None, ts0))"

text \<open>
  The end of the loop body: a shape that was constructed gets its animation flag, then
  its rotation and its scale through the setters of \<^verbatim>\<open>ShapeBase\<close>, and is appended.
\<close>

definition anadirNueva ::
  "bool \<Rightarrow> real \<Rightarrow> real \<Rightarrow> real \<Rightarrow> Shape option \<Rightarrow> Shape option list \<Rightarrow> error + Shape option list" where
  "anadirNueva animado rot escX escY nuevaForma escena =
     (case nuevaForma of
        None \<Rightarrow> Inr escena
      | Some forma \<Rightarrow>
          and_then (setRotation rot (enableAnimation animado forma))
            (\<lambda>forma'. and_then (setScale (escX, escY) forma')
               (\<lambda>forma''. Inr (escena @ [Some forma'']))))"

text \<open>
  One turn of the loop, on a record whose fields are all found: the fields left in the
  stream and the collection, both updated.
\<close>

definition leerRegistro ::
  "token list \<Rightarrow> Shape option list \<Rightarrow> error + (token list \<times> Shape option list)" where
  "leerRegistro ts0 escena =
     (case leerComunes ts0 of
        None \<Rightarrow> Inl NotModelled
      | Some ((tipoInt, posX, posY, rot, escX, escY, col, animado), ts) \<Rightarrow>
          (case construirForma tipoInt posX posY col ts of
             None \<Rightarrow> Inl NotModelled
           | Some (nuevaForma, ts') \<Rightarrow>
               and_then (anadirNueva animado rot escX escY nuevaForma escena)
                 (\<lambda>escena'. Inr (ts', escena'))))"

fun cargarFormas :: "nat \<Rightarrow> token list \<Rightarrow> Shape option list \<Rightarrow> error + Shape option list" where
  "cargarFormas 0 ts escena = Inr escena"
| "cargarFormas (Suc n) ts escena =
     and_then (leerRegistro ts escena) (\<lambda>(ts', escena'). cargarFormas n ts' escena')"

text \<open>
  \<^verbatim>\<open>cargarEscena\<close>: when the file opens, read the count, clear the collection and run
  the loop; when it does not open, do nothing.
\<close>

definition cargarEscena :: "FileSystem \<Rightarrow> string \<Rightarrow> Shape option list \<Rightarrow> error + Shape option list" where
  "cargarEscena fs nombreArchivo escena =
     (case fs nombreArchivo of
        File ts \<Rightarrow>
          (case read_size_t ts of
             None \<Rightarrow> Inl NotModelled
           | Some (cantidad, ts') \<Rightarrow> cargarFormas cantidad ts' [])
      | _ \<Rightarrow> Inr escena)"

text \<open>Save, then load from the same name into a collection that holds \<open>viejas\<close>.\<close>

definition guardarYCargar ::
  "(real \<Rightarrow> real) \<Rightarrow> FileSystem \<Rightarrow> string \<Rightarrow> Shape option list \<Rightarrow> Shape option list
     \<Rightarrow> error + Shape option list" where
  "guardarYCargar fmt fs nombreArchivo escena viejas =
     and_then (guardarEscena fmt fs nombreArchivo escena)
       (\<lambda>fs'. cargarEscena fs' nombreArchivo viejas)"

subsection \<open>Notions used in the statements\<close>

text \<open>
  The type tag and the SFML object that the constructor of each class leaves in the base
  members. No member function changes either, so every object of the program satisfies
  \<open>constructed\<close>.
\<close>

fun classTag :: "Members \<Rightarrow> ShapeType" where
  "classTag (CircleMembers _ _ _ _) = Circle"
| "classTag (CubeMembers _ _ _) = Polygon"
| "classTag (TextMembers _ _ _ _ _) = Text"
| "classTag (RectangleMembers _ _ _ _) = Rectangle"
| "classTag (TriangleMembers _ _) = Triangle"
| "classTag (EllipseMembers _ _ _) = Ellipse"
| "classTag (PolygonMembers _ _) = Polygon"
| "classTag (LineMembers _ _) = Line"

fun classShapePtr :: "Members \<Rightarrow> sfShape option" where
  "classShapePtr (CircleMembers _ _ _ _) = Some sfCircleShape"
| "classShapePtr (CubeMembers _ _ _) = None"
| "classShapePtr (TextMembers _ _ _ _ _) = None"
| "classShapePtr (RectangleMembers _ _ _ _) = Some sfRectangleShape"
| "classShapePtr (TriangleMembers _ _) = Some sfConvexShape"
| "classShapePtr (EllipseMembers _ _ _) = Some sfCircleShape"
| "classShapePtr (PolygonMembers _ _) = Some sfConvexShape"
| "classShapePtr (LineMembers _ _) = Some sfRectangleShape"

definition constructed :: "Shape \<Rightarrow> bool" where
  "constructed s = (type s = classTag (members s) \<and> shapePtr s = classShapePtr (members s))"

text \<open>
  The six classes whose constructor assigns \<^verbatim>\<open>shapePtr\<close>: circle, rectangle,
  triangle, ellipse, polygon and line. The number of points of a polygon is a
  \<^verbatim>\<open>size_t\<close>.
\<close>

fun inFormat :: "Members \<Rightarrow> bool" where
  "inFormat (CircleMembers _ _ _ _) = True"
| "inFormat (CubeMembers _ _ _) = False"
| "inFormat (TextMembers _ _ _ _ _) = False"
| "inFormat (RectangleMembers _ _ _ _) = True"
| "inFormat (TriangleMembers _ _) = True"
| "inFormat (EllipseMembers _ _ _) = True"
| "inFormat (PolygonMembers puntos _) = (length puntos < 2 ^ 64)"
| "inFormat (LineMembers _ _) = True"

text \<open>
  A format that writes every float exactly, and a disk without files. The default format
  of the stream writes a whole number below \<open>10 ^ 6\<close> with all its digits, so on the
  shapes of the buttons, whose floats are all such numbers, it is this format.
\<close>

definition exactFormat :: "real \<Rightarrow> real" where
  "exactFormat x = x"

definition emptyDisk :: FileSystem where
  "emptyDisk nombreArchivo = Missing"

text \<open>
  One shape of each class, in the order of \<^verbatim>\<open>ShapeType\<close>; and one shape of each
  class again, the text first.
\<close>

definition unaDeCadaClase :: "Shape list" where
  "unaDeCadaClase =
     [circuloNuevo, rectanguloNuevo, trianguloNuevo, elipseNueva, poligonoNuevo, lineaNueva,
      cuboNuevo, textoNuevo]"

definition textoPrimero :: "Shape list" where
  "textoPrimero =
     [textoNuevo, circuloNuevo, rectanguloNuevo, trianguloNuevo, elipseNueva, poligonoNuevo,
      lineaNueva, cuboNuevo]"

section \<open>Properties\<close>

lemmas constructors =
  CircleShapeClass_def CubeShapeClass_def TextShapeClass_def RectangleShapeClass_def
  TriangleShapeClass_def EllipseShapeClass_def PolygonShapeClass_def LineShapeClass_def
  ShapeBase_def

lemmas button_shapes =
  circuloNuevo_def rectanguloNuevo_def trianguloNuevo_def elipseNueva_def poligonoNuevo_def
  lineaNueva_def cuboNuevo_def textoNuevo_def

subsection \<open>The class invariant\<close>

text \<open>Every constructor establishes \<open>constructed\<close> and every member function keeps it.\<close>

lemma constructed_constructors:
  "constructed (CircleShapeClass pos col radius)"
  "constructed (CubeShapeClass pos col sz depth)"
  "constructed (TextShapeClass pos col content)"
  "constructed (RectangleShapeClass pos col sz2)"
  "constructed (TriangleShapeClass pos col sz)"
  "constructed (EllipseShapeClass pos col radiusX radiusY)"
  "constructed (PolygonShapeClass pos col points)"
  "constructed (LineShapeClass startPoint endPoint col thickness)"
  by (simp_all add: constructed_def constructors)

lemma constructed_clone: "constructed s \<Longrightarrow> constructed (clone s)"
  by (cases "members s")
     (simp_all add: clone_def constructed_def constructors CubeShapeClass_copy_def)

lemma constructed_setters:
  assumes "constructed s"
  shows "setPosition pos s = Inr s' \<Longrightarrow> constructed s'"
    and "setRotation rot s = Inr s' \<Longrightarrow> constructed s'"
    and "setScale scl s = Inr s' \<Longrightarrow> constructed s'"
    and "setColor col s = Inr s' \<Longrightarrow> constructed s'"
    and "select s = Inr s' \<Longrightarrow> constructed s'"
    and "deselect s = Inr s' \<Longrightarrow> constructed s'"
    and "constructed (enableAnimation enable s)"
    and "constructed (setRotationSpeed speed s)"
    and "constructed (setScaleSpeed speed s)"
    and "constructed (setCharacterSize characterSize s)"
    and "constructed (rotate angle s)"
  using assms
  by (auto simp: constructed_def setPosition_def setRotation_def setScale_def setColor_def
      select_def deselect_def enableAnimation_def setRotationSpeed_def setScaleSpeed_def
      setCharacterSize_def rotate_def Let_def
      split: option.splits Members.splits)

lemma constructed_updateShape:
  "constructed s \<Longrightarrow> updateShape deltaTime s = Inr s' \<Longrightarrow> constructed s'"
  by (auto simp: constructed_def updateShape_def continuousRotation_def and_then_def Let_def
      split: option.splits Members.splits if_splits)

subsection \<open>The type tag\<close>

text \<open>
  C8. Seven of the eight classes report their own enumerator from \<^verbatim>\<open>getType()\<close>. A
  cube reports \<open>Polygon\<close>, the tag that its constructor passes to \<^verbatim>\<open>ShapeBase\<close>, and
  the record that \<^verbatim>\<open>guardarEscena\<close> writes for a cube starts with the field 4, the
  number of \<open>Polygon\<close>, not with 6, the number of \<open>Cube\<close>.
\<close>

theorem getType_of_each_class:
  "getType (CircleShapeClass pos col radius) = Circle
   \<and> getType (RectangleShapeClass pos col sz2) = Rectangle
   \<and> getType (TriangleShapeClass pos col sz) = Triangle
   \<and> getType (EllipseShapeClass pos col radiusX radiusY) = Ellipse
   \<and> getType (PolygonShapeClass pos col points) = Polygon
   \<and> getType (LineShapeClass startPoint endPoint col thickness) = Line
   \<and> getType (TextShapeClass pos col content) = Text
   \<and> getType (CubeShapeClass pos col sz depth) = Polygon
   \<and> hd (escribirComunes fmt (CubeShapeClass pos col sz depth)) = TNum 4"
  by (cases col) (simp add: getType_def constructors escribirComunes_def getColor_def)

subsection \<open>The rotation setter\<close>

text \<open>
  On an object whose \<^verbatim>\<open>shapePtr\<close> is set, \<^verbatim>\<open>setRotation(r)\<close> stores \<open>r\<close> as it is,
  for every real \<open>r\<close>: there is no wrapping and no clamping. The objects of the six
  classes with an SFML object are such.
\<close>

lemma setRotation_getRotation:
  "shapePtr s \<noteq> None \<Longrightarrow> map_sum id getRotation (setRotation rot s) = Inr rot"
  by (auto simp: setRotation_def getRotation_def)

lemma setRotation_six_classes:
  "constructed s \<Longrightarrow> inFormat (members s) \<Longrightarrow>
   map_sum id getRotation (setRotation rot s) = Inr rot"
  by (cases "members s") (auto simp: constructed_def setRotation_def getRotation_def)

text \<open>
  C9. On a text and on a cube, whose constructors leave \<^verbatim>\<open>shapePtr\<close> null,
  \<^verbatim>\<open>setRotation\<close> calls a member through the null pointer, whatever the angle: no
  value can be read back with \<^verbatim>\<open>getRotation()\<close> afterwards.
\<close>

theorem setRotation_null_shapePtr:
  "setRotation rot (TextShapeClass pos col content) = Inl NullPointer
   \<and> setRotation rot (CubeShapeClass pos col sz depth) = Inl NullPointer"
  by (simp add: setRotation_def constructors)

subsection \<open>clone\<close>

text \<open>
  A clone of any shape has rotation 0, scale (1, 1), and is neither animated nor
  selected, whatever the source had.
\<close>

lemma clone_resets_base_members:
  "getRotation (clone s) = 0 \<and> getScale (clone s) = (1, 1)
   \<and> animated (clone s) = False \<and> selected (clone s) = False"
  by (cases "members s")
     (simp_all add: clone_def getRotation_def getScale_def animated_def selected_def
        constructors CubeShapeClass_copy_def)

text \<open>
  C3. The clone of the circle of the \<^verbatim>\<open>Anadir Circulo\<close> button, turned to 45 degrees
  with \<^verbatim>\<open>setRotation\<close>, has rotation 0; the clone of the line of the
  \<^verbatim>\<open>Anadir Linea\<close> button, which is at (850, 550), is at (900, 550). So a clone is not
  equal to its source in the observable members.
\<close>

theorem clone_not_equal:
  "map_sum id (\<lambda>s. (getRotation s, getRotation (clone s))) (setRotation 45 circuloNuevo)
     = Inr (45, 0)
   \<and> getPosition lineaNueva = (850, 550)
   \<and> getPosition (clone lineaNueva) = (900, 550)"
  by (simp add: setRotation_def getRotation_def getPosition_def clone_def button_shapes
      constructors)

subsection \<open>Animation\<close>

text \<open>
  What the rotation step does keep: from a rotation between 0 and 360 inclusive, a step
  between 0 and 360 inclusive leads to a rotation between 0 and 360 inclusive.
\<close>

lemma continuousRotation_bounds:
  assumes "0 \<le> rotation s" "rotation s \<le> 360" "0 \<le> rotationSpeed * deltaTime"
    "rotationSpeed * deltaTime \<le> 360" "continuousRotation rotationSpeed deltaTime s = Inr s'"
  shows "0 \<le> rotation s' \<and> rotation s' \<le> 360"
  using assms by (auto simp: continuousRotation_def Let_def split: option.splits if_splits)

text \<open>
  C4. An animated circle with rotation speed -90 that starts at rotation 0 has rotation
  -90 after \<^verbatim>\<open>updateShape(1.0)\<close>: below the interval from 0 to 360.
\<close>

theorem updateShape_negative_speed:
  "map_sum id getRotation
     (updateShape 1 (enableAnimation True (setRotationSpeed (- 90) circuloNuevo))) = Inr (- 90)"
  by (simp add: updateShape_def continuousRotation_def and_then_def enableAnimation_def
      setRotationSpeed_def getRotation_def button_shapes constructors)

text \<open>With speed 360 and an elapsed time of 3 seconds the rotation ends at 720.\<close>

lemma updateShape_long_step:
  "map_sum id getRotation
     (updateShape 3 (enableAnimation True (setRotationSpeed 360 circuloNuevo))) = Inr 720"
  by (simp add: updateShape_def continuousRotation_def and_then_def enableAnimation_def
      setRotationSpeed_def getRotation_def button_shapes constructors)

text \<open>
  C5. An animated circle with rotation speed 90 that starts at rotation 0 has rotation
  360 after four calls of \<^verbatim>\<open>updateShape(1.0)\<close>: the test is \<^verbatim>\<open>rotation > 360\<close>, so
  360 itself is not wrapped to 0.
\<close>

theorem scenario_B_ends_at_360:
  "map_sum id getRotation
     (updateShapes [1, 1, 1, 1] (enableAnimation True (setRotationSpeed 90 circuloNuevo)))
   = Inr 360"
  by (simp add: updateShape_def continuousRotation_def and_then_def enableAnimation_def
      setRotationSpeed_def getRotation_def button_shapes constructors)

text \<open>The cube's \<^verbatim>\<open>rotate\<close>, which tests \<^verbatim>\<open>>= 360\<close>, does come back to 0 after four quarter turns.\<close>

lemma rotate_four_quarters:
  "members (rotate 90 (rotate 90 (rotate 90 (rotate 90 cuboNuevo)))) = CubeMembers 100 50 0"
  by (simp add: rotate_def button_shapes constructors)

subsection \<open>The history\<close>

lemma popAll_empty: "popAll stack = []"
  by (induction stack) simp_all

text \<open>
  C6. After \<^verbatim>\<open>addAction(action)\<close> the new action is on top of the undo history,
  \<^verbatim>\<open>canUndo()\<close> is true, the redo history is empty and \<^verbatim>\<open>canRedo()\<close> is false,
  whatever the two histories held before the call.
\<close>

theorem addAction_invalidates_redo:
  "undoStack (addAction action m) = action # undoStack m
   \<and> canUndo (addAction action m)
   \<and> redoStack (addAction action m) = []
   \<and> \<not> canRedo (addAction action m)"
  by (simp add: addAction_def canUndo_def canRedo_def popAll_empty)

text \<open>
  C7. With an empty undo history \<^verbatim>\<open>undo()\<close> returns the empty action
  \<^verbatim>\<open>Action{}\<close> and leaves both histories as they were; with an empty redo history
  \<^verbatim>\<open>redo()\<close> does the same. Neither has an error result. The handlers of the editor
  test \<^verbatim>\<open>canUndo()\<close> and \<^verbatim>\<open>canRedo()\<close> first and then leave the editor as it was.
\<close>

theorem undo_redo_on_empty_history:
  "(undoStack m = [] \<longrightarrow> undo m = (emptyAction, m))
   \<and> (redoStack m = [] \<longrightarrow> redo m = (emptyAction, m))
   \<and> (undoStack (undoRedoManager ed) = [] \<longrightarrow> deshacer ed = Inr ed)
   \<and> (redoStack (undoRedoManager ed) = [] \<longrightarrow> rehacer ed = Inr ed)"
  by (simp add: undo_def redo_def canUndo_def canRedo_def deshacer_def rehacer_def)

theorem undo_redo_on_empty_history_witness:
  "undoStack newUndoRedoManager = [] \<and> redoStack newUndoRedoManager = []
   \<and> undo newUndoRedoManager = (emptyAction, newUndoRedoManager)
   \<and> redo newUndoRedoManager = (emptyAction, newUndoRedoManager)
   \<and> undoStack (undoRedoManager newEditor) = [] \<and> redoStack (undoRedoManager newEditor) = []
   \<and> deshacer newEditor = Inr newEditor
   \<and> rehacer newEditor = Inr newEditor"
  using undo_redo_on_empty_history [of newUndoRedoManager newEditor]
  by (simp add: newUndoRedoManager_def newEditor_def)

text \<open>The action that \<^verbatim>\<open>undo()\<close> or \<^verbatim>\<open>redo()\<close> returns from a non-empty history holds no shape.\<close>

lemma undo_returns_null_shape:
  "canUndo m \<Longrightarrow> actionShape (fst (undo m)) = None"
  by (cases "undoStack m") (simp_all add: undo_def canUndo_def movedFrom_def)

lemma redo_returns_null_shape:
  "canRedo m \<Longrightarrow> actionShape (fst (redo m)) = None"
  by (cases "redoStack m") (simp_all add: redo_def canRedo_def movedFrom_def)

text \<open>
  C1. Scenario A on the code. From the empty editor the button \<^verbatim>\<open>Anadir Circulo\<close>
  gives a collection of one circle; \<^verbatim>\<open>Deshacer\<close> then gives the empty collection;
  \<^verbatim>\<open>Rehacer\<close> then gives a collection of one null pointer, not of one circle.
\<close>

theorem scenario_A_redo_inserts_null:
  "formas (anadirCirculo newEditor) = [Some circuloNuevo]
   \<and> map_sum id formas (deshacer (anadirCirculo newEditor)) = Inr []
   \<and> map_sum id formas (and_then (deshacer (anadirCirculo newEditor)) rehacer) = Inr [None]"
  by (simp add: deshacer_def rehacer_def anadirCirculo_def anadirForma_def newEditor_def
      newUndoRedoManager_def addAction_def canUndo_def canRedo_def undo_def redo_def
      movedFrom_def erase_def insert_at_def and_then_def)

text \<open>
  The same for any editor: when the action on top of the undo history is an \<open>Add\<close>
  whose index is inside the collection, \<^verbatim>\<open>Deshacer\<close> followed by \<^verbatim>\<open>Rehacer\<close>
  leaves the collection with a null pointer at that index.
\<close>

lemma redo_after_undo_of_Add:
  assumes "undoStack (undoRedoManager ed) = action # rest"
    and "actionType action = Add"
    and "0 \<le> actionIndex action"
    and "actionIndex action < int (length (formas ed))"
  shows "map_sum id formas (and_then (deshacer ed) rehacer)
         = Inr ((formas ed)[nat (actionIndex action) := None])"
proof -
  let ?n = "nat (actionIndex action)"
  have n: "?n < length (formas ed)" using assms by simp
  have t: "take ?n (take ?n (formas ed) @ drop (Suc ?n) (formas ed)) = take ?n (formas ed)"
    using n by simp
  have d: "drop ?n (take ?n (formas ed) @ drop (Suc ?n) (formas ed)) = drop (Suc ?n) (formas ed)"
    using n by simp
  show ?thesis
    using assms n
    by (simp add: deshacer_def rehacer_def canUndo_def canRedo_def undo_def redo_def
        movedFrom_def erase_def insert_at_def and_then_def t d upd_conv_take_nth_drop)
qed

text \<open>
  Scenario C on the code: three shapes, the one at index 1 removed, then \<^verbatim>\<open>Deshacer\<close>.
  The collection has three entries again, with a null pointer at index 1.
\<close>

lemma scenario_C_undo_inserts_null:
  "map_sum id formas
     (and_then
        (eliminarForma
           ((anadirForma trianguloNuevo (anadirForma rectanguloNuevo (anadirCirculo newEditor)))
              \<lparr>formaSeleccionada := 1\<rparr>))
        deshacer)
   = Inr [Some circuloNuevo, None, Some trianguloNuevo]"
  by (simp add: deshacer_def eliminarForma_def anadirCirculo_def anadirForma_def newEditor_def
      newUndoRedoManager_def addAction_def canUndo_def undo_def
      movedFrom_def erase_def insert_at_def and_then_def popAll_empty)

subsection \<open>Scene files: the cube and the text\<close>

lemma escribirFormas_Some:
  "escribirFormas fmt (map Some shapes) =
     Inr (concat (map (\<lambda>s. escribirComunes fmt s @ escribirEspecificas fmt s) shapes))"
  by (induction shapes) (simp_all add: and_then_def)

lemma cube_record_tokens:
  "escribirComunes exactFormat cuboNuevo @ escribirEspecificas exactFormat cuboNuevo
   = [TNum 4, TNum 500, TNum 400, TNum 0, TNum 1, TNum 1, TNum 255, TNum 255, TNum 0, TNum 255,
      TNum 0]"
  by (simp add: exactFormat_def escribirComunes_def escribirEspecificas_def getType_def
      getPosition_def getRotation_def getScale_def getColor_def animated_def Yellow_def
      button_shapes constructors)

lemma text_record_tokens:
  "escribirComunes exactFormat textoNuevo @ escribirEspecificas exactFormat textoNuevo
   = [TNum 7, TNum 100, TNum 100, TNum 0, TNum 1, TNum 1, TNum 255, TNum 255, TNum 255,
      TNum 255, TNum 0, TWord ''Texto'', TNum 24]"
  by (simp add: exactFormat_def escribirComunes_def escribirEspecificas_def getType_def
      getPosition_def getRotation_def getScale_def getColor_def animated_def White_def
      button_shapes constructors)

lemma circle_record_tokens:
  "escribirComunes exactFormat circuloNuevo @ escribirEspecificas exactFormat circuloNuevo
   = [TNum 0, TNum 400, TNum 300, TNum 0, TNum 1, TNum 1, TNum 0, TNum 255, TNum 0, TNum 255,
      TNum 0, TNum 50, TNum 0, TNum 0]"
  by (simp add: exactFormat_def escribirComunes_def escribirEspecificas_def getType_def
      getPosition_def getRotation_def getScale_def getColor_def animated_def Green_def
      button_shapes constructors)

text \<open>
  A cube followed by a circle loads without any failed extraction, as one polygon: the
  record of the cube carries the tag of a polygon and no further field, so the tag 0 of
  the circle's record is taken for the number of points and its position 400 for the
  rotation speed; the rest of the circle's record is read as a record of the unknown type
  300, which adds nothing.
\<close>

lemma cube_then_circle_tokens:
  "cargarFormas 2
     ([TNum 4, TNum 500, TNum 400, TNum 0, TNum 1, TNum 1, TNum 255, TNum 255, TNum 0, TNum 255,
       TNum 0]
      @ [TNum 0, TNum 400, TNum 300, TNum 0, TNum 1, TNum 1, TNum 0, TNum 255, TNum 0, TNum 255,
         TNum 0, TNum 50, TNum 0, TNum 0]) []
   = Inr [Some (setRotationSpeed 400 (PolygonShapeClass (500, 400) Yellow []))]"
  by (simp add: eval_nat_numeral leerRegistro_def leerComunes_def construirForma_def
      read_int_def read_float_def read_bool_def read_size_t_def anadirNueva_def and_then_def
      setRotation_def setScale_def enableAnimation_def setRotationSpeed_def Yellow_def
      constructors)

lemma cube_then_circle_loads_one_polygon:
  "guardarYCargar exactFormat emptyDisk ''escena.txt'' [Some cuboNuevo, Some circuloNuevo] []
   = Inr [Some (setRotationSpeed 400 (PolygonShapeClass (500, 400) Yellow []))]"
proof -
  have "escribirFormas exactFormat [Some cuboNuevo, Some circuloNuevo]
        = Inr ([TNum 4, TNum 500, TNum 400, TNum 0, TNum 1, TNum 1, TNum 255, TNum 255, TNum 0,
                TNum 255, TNum 0]
               @ [TNum 0, TNum 400, TNum 300, TNum 0, TNum 1, TNum 1, TNum 0, TNum 255, TNum 0,
                  TNum 255, TNum 0, TNum 50, TNum 0, TNum 0])"
    using cube_record_tokens circle_record_tokens by (simp add: and_then_def)
  then show ?thesis
    using cube_then_circle_tokens
    by (simp add: guardarYCargar_def guardarEscena_def emptyDisk_def and_then_def
        cargarEscena_def read_size_t_def del: append.simps)
qed

text \<open>
  The record of the text of \<open>textoNuevo\<close>, whatever follows it in the file: all its
  thirteen fields are found, the text is constructed with its content and its character
  size, the animation flag is set, and the rotation setter then goes through the null
  \<^verbatim>\<open>shapePtr\<close>.
\<close>

lemma text_record_read:
  "leerRegistro
     ([TNum 7, TNum 100, TNum 100, TNum 0, TNum 1, TNum 1, TNum 255, TNum 255, TNum 255,
       TNum 255, TNum 0, TWord ''Texto'', TNum 24] @ rest)
     escena
   = Inl NullPointer"
  by (simp add: leerRegistro_def leerComunes_def construirForma_def
      read_int_def read_float_def read_bool_def read_word_def read_unsigned_def isspace_def
      anadirNueva_def and_then_def setRotation_def enableAnimation_def setCharacterSize_def
      constructors)

lemma text_record_stops_loading:
  "guardarYCargar exactFormat emptyDisk ''escena.txt'' [Some textoNuevo] [] = Inl NullPointer"
proof -
  have "escribirFormas exactFormat [Some textoNuevo]
        = Inr ([TNum 7, TNum 100, TNum 100, TNum 0, TNum 1, TNum 1, TNum 255, TNum 255,
                TNum 255, TNum 255, TNum 0, TWord ''Texto'', TNum 24] @ [])"
    using text_record_tokens by (simp add: and_then_def)
  then show ?thesis
    using text_record_read [of "[]"]
    by (simp add: guardarYCargar_def guardarEscena_def emptyDisk_def and_then_def
        cargarEscena_def read_size_t_def del: append.simps)
qed

text \<open>
  C2. The collection \<open>textoPrimero\<close> holds one new shape of each of the eight classes,
  the text, whose content \<^verbatim>\<open>Texto\<close> is one word, first. \<^verbatim>\<open>guardarEscena\<close> writes
  it to a new file, every float exactly. \<^verbatim>\<open>cargarEscena\<close> on that file reads the
  count 8 and the record of the text, constructs the text, and calls
  \<^verbatim>\<open>setRotation\<close> on it through the null \<^verbatim>\<open>shapePtr\<close>: no scene comes back.
\<close>

theorem save_then_load_stops_at_text:
  "guardarYCargar exactFormat emptyDisk ''escena.txt'' (map Some textoPrimero) []
     = Inl NullPointer"
proof -
  let ?f = "\<lambda>s. escribirComunes exactFormat s @ escribirEspecificas exactFormat s"
  let ?others = "[circuloNuevo, rectanguloNuevo, trianguloNuevo, elipseNueva, poligonoNuevo,
                  lineaNueva, cuboNuevo]"
  let ?text = "[TNum 7, TNum 100, TNum 100, TNum 0, TNum 1, TNum 1, TNum 255, TNum 255,
                TNum 255, TNum 255, TNum 0, TWord ''Texto'', TNum 24]"
  have written: "escribirFormas exactFormat (map Some textoPrimero)
                   = Inr (concat (map ?f textoPrimero))"
    by (rule escribirFormas_Some)
  have fields: "concat (map ?f textoPrimero) = ?text @ concat (map ?f ?others)"
    using text_record_tokens by (simp add: textoPrimero_def del: append.simps)
  have count: "read_size_t (TNum (of_nat (length (map Some textoPrimero))) # ts) = Some (8, ts)"
    for ts
    by (simp add: read_size_t_def textoPrimero_def)
  have first: "cargarFormas 8 (?text @ concat (map ?f ?others)) [] = Inl NullPointer"
    by (simp only: eval_nat_numeral cargarFormas.simps text_record_read and_then_def sum.case)
  have can_write: "emptyDisk ''escena.txt'' \<noteq> Unopenable"
    by (simp add: emptyDisk_def)
  have saved: "guardarEscena exactFormat emptyDisk ''escena.txt'' (map Some textoPrimero)
                 = Inr (emptyDisk(''escena.txt'' :=
                     File (TNum (of_nat (length (map Some textoPrimero)))
                             # concat (map ?f textoPrimero))))"
    using can_write by (simp add: guardarEscena_def written and_then_def)
  have opened: "cargarEscena
                  (emptyDisk(''escena.txt'' :=
                     File (TNum (of_nat (length (map Some textoPrimero))) # ts)))
                  ''escena.txt'' []
                = cargarFormas 8 ts []" for ts
    by (simp only: cargarEscena_def fun_upd_same archivo.case count option.case prod.case)
  show ?thesis
    by (simp only: guardarYCargar_def saved and_then_def sum.case opened fields first)
qed

subsection \<open>Scene files: a file that does not open\<close>

text \<open>
  C10. When the file is missing or cannot be opened, \<^verbatim>\<open>cargarEscena\<close> returns the
  collection exactly as it was and reports nothing.
\<close>

theorem cargarEscena_unopened:
  "fs nombreArchivo = Missing \<or> fs nombreArchivo = Unopenable \<Longrightarrow>
   cargarEscena fs nombreArchivo escena = Inr escena"
  by (auto simp: cargarEscena_def)

theorem cargarEscena_unopened_witness:
  "emptyDisk ''escena.txt'' = Missing
   \<and> cargarEscena emptyDisk ''escena.txt'' (map Some unaDeCadaClase)
       = Inr (map Some unaDeCadaClase)
   \<and> (emptyDisk(''escena.txt'' := Unopenable)) ''escena.txt'' = Unopenable
   \<and> cargarEscena (emptyDisk(''escena.txt'' := Unopenable)) ''escena.txt''
         (map Some unaDeCadaClase)
       = Inr (map Some unaDeCadaClase)"
proof -
  have a: "emptyDisk ''escena.txt'' = Missing \<or> emptyDisk ''escena.txt'' = Unopenable"
    by (simp add: emptyDisk_def)
  have b: "(emptyDisk(''escena.txt'' := Unopenable)) ''escena.txt'' = Missing
           \<or> (emptyDisk(''escena.txt'' := Unopenable)) ''escena.txt'' = Unopenable"
    by simp
  show ?thesis
    using cargarEscena_unopened
        [of emptyDisk "''escena.txt''" "map Some unaDeCadaClase", OF a]
      cargarEscena_unopened
        [of "emptyDisk(''escena.txt'' := Unopenable)" "''escena.txt''"
          "map Some unaDeCadaClase", OF b]
    by (simp add: emptyDisk_def)
qed

text \<open>
  A file that opens is another matter: the collection is cleared before the first record
  is read, so the result never depends on what the collection held.
\<close>

lemma cargarEscena_opened_clears:
  "fs nombreArchivo = File ts \<Longrightarrow>
   cargarEscena fs nombreArchivo escena = cargarEscena fs nombreArchivo []"
  by (simp add: cargarEscena_def)

end
